theory Spec2Isabelle
  imports Main "HOL-Library.AList"
begin

section \<open>The two launcher scripts\<close>

text \<open>
  The repository holds two near-duplicate Node.js launchers:
  \<^verbatim>\<open>src/bin/sitewise-mcp-server.js\<close> (here \<open>Bin\<close>) and the unnamed file
  \<^verbatim>\<open>src/unnamed/part_001\<close> (here \<open>Part001\<close>). Each function of the scripts is one
  definition below, with the variant as its first argument where the two files differ.
\<close>

datatype variant = Bin | Part001

subsection \<open>Strings\<close>

text \<open>
  Strings are byte strings of the UTF-8 text. The non-ASCII characters of the source's
  literals are written as their UTF-8 bytes.
\<close>

definition a_acute :: string where
  "a_acute = [CHR 0xC3, CHR 0xA1]"

definition o_acute :: string where
  "o_acute = [CHR 0xC3, CHR 0xB3]"

definition emoji_package :: string where
  "emoji_package = [CHR 0xF0, CHR 0x9F, CHR 0x93, CHR 0xA6]"

definition emoji_check :: string where
  "emoji_check = [CHR 0xE2, CHR 0x9C, CHR 0x85]"

definition emoji_rocket :: string where
  "emoji_rocket = [CHR 0xF0, CHR 0x9F, CHR 0x9A, CHR 0x80]"

definition emoji_stop :: string where
  "emoji_stop = [CHR 0xF0, CHR 0x9F, CHR 0x9B, CHR 0x91]"

definition emoji_clipboard :: string where
  "emoji_clipboard = [CHR 0xF0, CHR 0x9F, CHR 0x93, CHR 0x8B]"

definition emoji_wrench :: string where
  "emoji_wrench = [CHR 0xF0, CHR 0x9F, CHR 0x94, CHR 0xA7]"

definition emoji_snake :: string where
  "emoji_snake = [CHR 0xF0, CHR 0x9F, CHR 0x90, CHR 0x8D]"

definition emoji_cross :: string where
  "emoji_cross = [CHR 0xE2, CHR 0x9D, CHR 0x8C]"

definition newline :: char where
  "newline = CHR 0x0A"

text \<open>
  \<^verbatim>\<open>String.prototype.trim\<close> removes white space and line terminators from both ends.
  The ASCII ones are tab, line feed, vertical tab, form feed, carriage return and space;
  the non-ASCII white space of Unicode is not part of this model.
\<close>

definition is_space :: "char \<Rightarrow> bool" where
  "is_space c = (c = CHR 0x09 \<or> c = CHR 0x0A \<or> c = CHR 0x0B \<or> c = CHR 0x0C
                 \<or> c = CHR 0x0D \<or> c = CHR 0x20)"

definition trim :: "string \<Rightarrow> string" where
  "trim s = rev (dropWhile is_space (rev (dropWhile is_space s)))"

text \<open>
  \<^verbatim>\<open>s.split(c)\<close> for a one-character separator: the fields between the separators,
  always at least one field (\<^verbatim>\<open>''.split('=')\<close> is \<^verbatim>\<open>['']\<close>).
\<close>

fun split_on :: "char \<Rightarrow> string \<Rightarrow> string list" where
  "split_on c [] = [[]]"
| "split_on c (x # xs) =
     (if x = c then [] # split_on c xs
      else (case split_on c xs of
              [] \<Rightarrow> [[x]]
            | p # ps \<Rightarrow> (x # p) # ps))"

text \<open>
  \<^verbatim>\<open>value.replace(/^["']|["']$/g, '')\<close>: one quote character is removed at the start,
  and one at the end of what is left.
\<close>

definition is_quote :: "char \<Rightarrow> bool" where
  "is_quote c = (c = CHR 0x22 \<or> c = CHR 0x27)"

definition strip_quotes :: "string \<Rightarrow> string" where
  "strip_quotes s =
     (let s1 = (case s of [] \<Rightarrow> [] | c # cs \<Rightarrow> if is_quote c then cs else s)
      in if s1 \<noteq> [] \<and> is_quote (last s1) then butlast s1 else s1)"

text \<open>\<^verbatim>\<open>`${code}`\<close> for an exit code: a decimal numeral, or \<^verbatim>\<open>null\<close>.\<close>

fun show_nat :: "nat \<Rightarrow> string" where
  "show_nat n =
     (if n < 10 then [char_of (48 + n)]
      else show_nat (n div 10) @ [char_of (48 + n mod 10)])"

definition show_int :: "int \<Rightarrow> string" where
  "show_int i = (if i < 0 then ''-'' @ show_nat (nat (- i)) else show_nat (nat i))"

definition show_code :: "int option \<Rightarrow> string" where
  "show_code code = (case code of None \<Rightarrow> ''null'' | Some i \<Rightarrow> show_int i)"

subsection \<open>The environment of a run\<close>

text \<open>
  A JavaScript object used as a dictionary is an association list, read through
  \<^const>\<open>map_of\<close> and written with \<^const>\<open>AList.update\<close> (an assignment \<^verbatim>\<open>env[k] = v\<close>).
\<close>

type_synonym env = "(string \<times> string) list"

text \<open>
  What a child process emits: \<^verbatim>\<open>'close'\<close> with its exit code (\<open>None\<close> is \<^verbatim>\<open>null\<close>: the child
  was ended by a signal), or \<^verbatim>\<open>'error'\<close> with the message of the error.
\<close>

datatype child_event = Close "int option" | Error string

datatype signal = SIGINT | SIGTERM

text \<open>A path of the file system: a readable file with its text, or one whose read throws.\<close>

datatype fs_entry = Content string | Unreadable string

record world =
  argv :: "string list"
  penv :: env
  platform :: string
  packageDir :: string
  cwd :: string
  files :: "string \<Rightarrow> fs_entry option"
  spawn_result :: "string \<Rightarrow> string list \<Rightarrow> child_event list"
  signals :: "signal list"

text \<open>
  \<open>argv\<close> is \<^verbatim>\<open>process.argv\<close>, \<open>penv\<close> is \<^verbatim>\<open>process.env\<close>, \<open>platform\<close> is
  \<^verbatim>\<open>process.platform\<close>, \<open>packageDir\<close> is \<^verbatim>\<open>path.dirname(__dirname)\<close>, \<open>cwd\<close> is
  \<^verbatim>\<open>process.cwd()\<close>. \<open>spawn_result cmd args\<close> lists the events that a child started
  with this command line emits, in order (the empty list: the child never ends).
  \<open>signals\<close> are the signals that the launcher receives while the server child is
  active, that is after \<^verbatim>\<open>runServer\<close> has registered its handlers and before the
  server child emits its first event.
\<close>

definition existsSync :: "world \<Rightarrow> string \<Rightarrow> bool" where
  "existsSync w p = (files w p \<noteq> None)"

text \<open>\<^verbatim>\<open>path.join\<close> on two segments that need no normalisation.\<close>

definition path_join :: "string \<Rightarrow> string \<Rightarrow> string" where
  "path_join a b = a @ ''/'' @ b"

subsection \<open>Observable actions\<close>

datatype stdio_mode = Pipe | Inherit

datatype action =
    Stdout string
  | Stderr string
  | Spawn string "string list" "stdio_mode list option" "env option"
  | KillServer signal

text \<open>
  \<open>Stdout s\<close> is \<^verbatim>\<open>console.log(s)\<close>, \<open>Stderr s\<close> is \<^verbatim>\<open>console.error(s)\<close>,
  \<open>Spawn cmd args stdio env\<close> is \<^verbatim>\<open>spawn(cmd, args, {stdio, env})\<close> (\<open>None\<close> for an option
  that is not given), \<open>KillServer sig\<close> is \<^verbatim>\<open>server.kill(sig)\<close>.
\<close>

datatype color = reset | bright | red | green | yellow | blue | magenta | cyan | white

definition colors :: "color \<Rightarrow> string" where
  "colors c = CHR 0x1B #
     (case c of reset \<Rightarrow> ''[0m'' | bright \<Rightarrow> ''[1m'' | red \<Rightarrow> ''[31m'' | green \<Rightarrow> ''[32m''
      | yellow \<Rightarrow> ''[33m'' | blue \<Rightarrow> ''[34m'' | magenta \<Rightarrow> ''[35m'' | cyan \<Rightarrow> ''[36m''
      | white \<Rightarrow> ''[37m'')"

definition truthy :: "string option \<Rightarrow> bool" where
  "truthy x = (case x of None \<Rightarrow> False | Some s \<Rightarrow> s \<noteq> [])"

definition supportsColor :: "world \<Rightarrow> bool" where
  "supportsColor w =
     (platform w \<noteq> ''win32'' \<or> truthy (map_of (penv w) ''FORCE_COLOR'')
      \<or> truthy (map_of (penv w) ''CI''))"

text \<open>
  \<^verbatim>\<open>log\<close>: the \<open>Bin\<close> script writes with \<^verbatim>\<open>console.log\<close>, coloured when colours are
  supported; the \<open>Part001\<close> script writes with \<^verbatim>\<open>console.error\<close>, prefixed, and has no
  colour argument.
\<close>

definition log :: "variant \<Rightarrow> world \<Rightarrow> string \<Rightarrow> color \<Rightarrow> action" where
  "log v w message c =
     (case v of
        Bin \<Rightarrow> Stdout (if supportsColor w then colors c @ message @ colors reset else message)
      | Part001 \<Rightarrow> Stderr (''[sitewise-mcp] '' @ message))"

subsection \<open>loadEnvFile\<close>

definition env_value :: "variant \<Rightarrow> string \<Rightarrow> string" where
  "env_value v val = (case v of Bin \<Rightarrow> trim val | Part001 \<Rightarrow> strip_quotes (trim val))"

text \<open>
  The body of the \<^verbatim>\<open>forEach\<close>: \<^verbatim>\<open>const [key, value] = line.split('=')\<close> takes the
  first two fields (\<^verbatim>\<open>value\<close> is \<^verbatim>\<open>undefined\<close> when there is one field only), and
  \<^verbatim>\<open>key && value\<close> holds when both are non-empty strings.
\<close>

definition env_line :: "variant \<Rightarrow> env \<Rightarrow> string \<Rightarrow> env" where
  "env_line v e line =
     (case split_on CHR ''='' line of
        key # val # _ \<Rightarrow>
          if key \<noteq> [] \<and> val \<noteq> [] then AList.update (trim key) (env_value v val) e else e
      | _ \<Rightarrow> e)"

definition parse_env :: "variant \<Rightarrow> string \<Rightarrow> env" where
  "parse_env v envContent = foldl (env_line v) [] (split_on newline envContent)"

text \<open>
  \<^verbatim>\<open>loadEnvFile\<close> returns the overlay, or throws what \<^verbatim>\<open>readFileSync\<close> throws (\<open>Inl\<close>, in
  the \<open>Bin\<close> script only: the \<open>Part001\<close> script catches it and logs it).
\<close>

definition loadEnvFile :: "variant \<Rightarrow> world \<Rightarrow> (string + env) \<times> action list" where
  "loadEnvFile v w =
     (let envPath = path_join (cwd w) ''.env'' in
      case files w envPath of
        None \<Rightarrow> (Inr [], [])
      | Some (Content envContent) \<Rightarrow>
          (case v of
             Bin \<Rightarrow> (Inr (parse_env v envContent),
                      [log v w (emoji_clipboard @ '' Variables de entorno cargadas desde .env'') blue])
           | Part001 \<Rightarrow> (Inr (parse_env v envContent), []))
      | Some (Unreadable msg) \<Rightarrow>
          (case v of
             Bin \<Rightarrow> (Inl msg, [])
           | Part001 \<Rightarrow> (Inr [], [log v w (''Error leyendo .env: '' @ msg) reset])))"

subsection \<open>Promises and awaiting\<close>

text \<open>A promise settles once: a later \<^verbatim>\<open>resolve\<close> or \<^verbatim>\<open>reject\<close> does nothing.\<close>

datatype 'a promise = Pending | Resolved 'a | Rejected string

definition settle :: "'a promise \<Rightarrow> 'a promise \<Rightarrow> 'a promise" where
  "settle p q = (case p of Pending \<Rightarrow> q | _ \<Rightarrow> p)"

text \<open>
  What \<^verbatim>\<open>await\<close> on an operation comes to: the value of the fulfilled promise; the
  message of the error it was rejected with (thrown at the \<^verbatim>\<open>await\<close>); an error event
  that no listener took, which Node.js throws as an uncaught exception that ends the
  process; or nothing, when the promise stays pending.
\<close>

datatype 'a awaited = Fulfilled 'a | Failed string | Crashed string | Waiting

type_synonym 'a run = "'a awaited \<times> action list"

definition tell :: "action list \<Rightarrow> unit run" where
  "tell acts = (Fulfilled (), acts)"

definition throw :: "string \<Rightarrow> 'a run" where
  "throw msg = (Failed msg, [])"

definition await :: "'a run \<Rightarrow> ('a \<Rightarrow> 'b run) \<Rightarrow> 'b run" where
  "await m f =
     (case m of
        (Fulfilled x, tr) \<Rightarrow> (case f x of (r, tr') \<Rightarrow> (r, tr @ tr'))
      | (Failed e, tr) \<Rightarrow> (Failed e, tr)
      | (Crashed e, tr) \<Rightarrow> (Crashed e, tr)
      | (Waiting, tr) \<Rightarrow> (Waiting, tr))"

subsection \<open>checkPython\<close>

definition notFound :: "variant \<Rightarrow> string" where
  "notFound v =
     (case v of
        Bin \<Rightarrow> ''Python no est'' @ a_acute @ '' instalado o no est'' @ a_acute @ '' en el PATH''
      | Part001 \<Rightarrow> ''Python no encontrado'')"

definition spawn_version :: "variant \<Rightarrow> string \<Rightarrow> action" where
  "spawn_version v cmd =
     Spawn cmd [''--version''] (case v of Bin \<Rightarrow> None | Part001 \<Rightarrow> Some [Pipe, Pipe, Pipe]) None"

text \<open>
  The state while the events of the \<^verbatim>\<open>python3\<close> child are delivered: the promise, the
  \<^verbatim>\<open>pythonAlt\<close> children spawned so far (\<open>True\<close> for the one spawned by the
  \<^verbatim>\<open>'error'\<close> handler, which has an \<^verbatim>\<open>'error'\<close> listener of its own; \<open>False\<close> for the
  one spawned by the \<^verbatim>\<open>'close'\<close> handler, which has none), and the actions.
\<close>

record check_state =
  promise :: "string promise"
  alts :: "bool list"
  trace :: "action list"

fun python_event :: "variant \<Rightarrow> check_state \<Rightarrow> child_event \<Rightarrow> check_state" where
  "python_event v s (Close code) =
     (if code = Some 0 then s\<lparr>promise := settle (promise s) (Resolved ''python3'')\<rparr>
      else s\<lparr>alts := alts s @ [False], trace := trace s @ [spawn_version v ''python'']\<rparr>)"
| "python_event v s (Error m) =
     s\<lparr>alts := alts s @ [True], trace := trace s @ [spawn_version v ''python'']\<rparr>"

text \<open>
  An event of a \<^verbatim>\<open>pythonAlt\<close> child. \<open>Inl m\<close>: an \<^verbatim>\<open>'error'\<close> event found no listener
  and was thrown.
\<close>

fun pythonAlt_event ::
  "variant \<Rightarrow> bool \<Rightarrow> string + string promise \<Rightarrow> child_event \<Rightarrow> string + string promise"
where
  "pythonAlt_event v has_listener (Inl m) e = Inl m"
| "pythonAlt_event v has_listener (Inr p) (Close altCode) =
     (if altCode = Some 0 then Inr (settle p (Resolved ''python''))
      else Inr (settle p (Rejected (notFound v))))"
| "pythonAlt_event v has_listener (Inr p) (Error m) =
     (if has_listener then Inr (settle p (Rejected (notFound v))) else Inl m)"

text \<open>
  The events of the \<^verbatim>\<open>python3\<close> child are delivered first, then those of each
  \<^verbatim>\<open>pythonAlt\<close> child in the order of their spawning; \<^verbatim>\<open>main\<close> goes on after that.
\<close>

definition checkPython :: "variant \<Rightarrow> world \<Rightarrow> string run" where
  "checkPython v w =
     (let s = foldl (python_event v)
                \<lparr>promise = Pending, alts = [], trace = [spawn_version v ''python3'']\<rparr>
                (spawn_result w ''python3'' [''--version'']);
          r = foldl (\<lambda>st has_listener.
                       foldl (pythonAlt_event v has_listener) st
                         (spawn_result w ''python'' [''--version'']))
                (Inr (promise s)) (alts s)
      in (case r of
            Inl m \<Rightarrow> Crashed m
          | Inr Pending \<Rightarrow> Waiting
          | Inr (Resolved cmd) \<Rightarrow> Fulfilled cmd
          | Inr (Rejected e) \<Rightarrow> Failed e,
          trace s))"

subsection \<open>installDependencies\<close>

text \<open>
  The promise of a child with both listeners settles at the child's first event, and
  \<^verbatim>\<open>main\<close> goes on from there.
\<close>

definition installDependencies :: "variant \<Rightarrow> world \<Rightarrow> string \<Rightarrow> string \<Rightarrow> unit run" where
  "installDependencies v w pythonCmd srcDir =
     (let requirementsPath = path_join srcDir ''requirements.txt'';
          tr0 = (case v of
                   Bin \<Rightarrow> [log v w (emoji_package @ '' Instalando dependencias de Python...'') yellow]
                 | Part001 \<Rightarrow> [])
      in if \<not> existsSync w requirementsPath then
           (Failed (case v of
                      Bin \<Rightarrow> ''No se encontr'' @ o_acute @ '' requirements.txt en '' @ requirementsPath
                    | Part001 \<Rightarrow> ''requirements.txt no encontrado en '' @ requirementsPath),
            tr0)
         else
           let pipArgs = [''-m'', ''pip'', ''install'', ''-r'', requirementsPath];
               tr1 = tr0
                 @ (case v of Bin \<Rightarrow> [] | Part001 \<Rightarrow> [log v w ''Instalando dependencias...'' reset])
                 @ [Spawn pythonCmd pipArgs
                      (Some (case v of Bin \<Rightarrow> [Inherit, Inherit, Inherit]
                                     | Part001 \<Rightarrow> [Pipe, Pipe, Inherit]))
                      None]
           in (case spawn_result w pythonCmd pipArgs of
                 [] \<Rightarrow> (Waiting, tr1)
               | Close code # _ \<Rightarrow>
                   if code = Some 0 then
                     (Fulfilled (),
                      tr1 @ (case v of
                               Bin \<Rightarrow> [log v w (emoji_check @ '' Dependencias instaladas correctamente'') green]
                             | Part001 \<Rightarrow> []))
                   else
                     (Failed (case v of
                                Bin \<Rightarrow> ''Error instalando dependencias (c'' @ o_acute @ ''digo: ''
                                        @ show_code code @ '')''
                              | Part001 \<Rightarrow> ''Error instalando dependencias: '' @ show_code code),
                      tr1)
               | Error msg # _ \<Rightarrow>
                   (Failed (case v of
                              Bin \<Rightarrow> ''Error ejecutando pip: '' @ msg
                            | Part001 \<Rightarrow> ''Error pip: '' @ msg),
                    tr1)))"

subsection \<open>runServer\<close>

text \<open>Object spread \<^verbatim>\<open>{...base, ...extra}\<close>: the entries of \<open>extra\<close> are assigned in order.\<close>

definition spread :: "env \<Rightarrow> env \<Rightarrow> env" where
  "spread base extra = foldl (\<lambda>acc (k, x). AList.update k x acc) base extra"

text \<open>The handlers that \<^verbatim>\<open>runServer\<close> registers with \<^verbatim>\<open>process.on\<close>.\<close>

fun on_signal :: "variant \<Rightarrow> world \<Rightarrow> signal \<Rightarrow> action list" where
  "on_signal v w SIGINT =
     (case v of Bin \<Rightarrow> [log v w (newline # emoji_stop @ '' Cerrando servidor...'') yellow]
              | Part001 \<Rightarrow> [])
     @ [KillServer SIGINT]"
| "on_signal v w SIGTERM =
     (case v of Bin \<Rightarrow> [log v w (newline # emoji_stop @ '' Cerrando servidor...'') yellow]
              | Part001 \<Rightarrow> [])
     @ [KillServer SIGTERM]"

text \<open>
  \<^verbatim>\<open>runServer(pythonCmd, serverPath, args)\<close>; the function of the \<open>Part001\<close> script has
  no third parameter, and \<open>args\<close> is not used for it.
\<close>

definition runServer :: "variant \<Rightarrow> world \<Rightarrow> string \<Rightarrow> string \<Rightarrow> string list \<Rightarrow> unit run" where
  "runServer v w pythonCmd serverPath args =
     (let tr0 = [case v of
                   Bin \<Rightarrow> log v w (emoji_rocket @ '' Iniciando SiteWise MCP Server...'') green
                 | Part001 \<Rightarrow> log v w ''Iniciando servidor...'' reset]
      in case loadEnvFile v w of
           (Inl msg, tr1) \<Rightarrow> (Failed msg, tr0 @ tr1)
         | (Inr overlay, tr1) \<Rightarrow>
             let childArgs = (case v of Bin \<Rightarrow> serverPath # args | Part001 \<Rightarrow> [serverPath]);
                 childStdio = (case v of Bin \<Rightarrow> [Pipe, Pipe, Pipe]
                                       | Part001 \<Rightarrow> [Inherit, Inherit, Inherit]);
                 childEnv = (case v of
                               Bin \<Rightarrow> spread (penv w) overlay
                             | Part001 \<Rightarrow>
                                 AList.update ''PYTHONUNBUFFERED'' ''1'' (spread (penv w) overlay));
                 tr2 = tr0 @ tr1 @ [Spawn pythonCmd childArgs (Some childStdio) (Some childEnv)]
                       @ concat (map (on_signal v w) (signals w))
             in (case spawn_result w pythonCmd childArgs of
                   [] \<Rightarrow> (Waiting, tr2)
                 | Close code # _ \<Rightarrow>
                     if code = Some 0 then
                       (Fulfilled (),
                        tr2 @ (case v of
                                 Bin \<Rightarrow> [log v w (emoji_check @ '' Servidor cerrado correctamente'') green]
                               | Part001 \<Rightarrow> []))
                     else
                       (Failed (case v of
                                  Bin \<Rightarrow> ''Servidor cerrado con c'' @ o_acute @ ''digo: '' @ show_code code
                                | Part001 \<Rightarrow> ''Servidor terminado: '' @ show_code code),
                        tr2)
                 | Error msg # _ \<Rightarrow>
                     (Failed (case v of
                                Bin \<Rightarrow> ''Error ejecutando servidor: '' @ msg
                              | Part001 \<Rightarrow> ''Error servidor: '' @ msg),
                      tr2)))"

subsection \<open>main and the help block\<close>

text \<open>The constants that \<^verbatim>\<open>main\<close> declares.\<close>

definition srcDir :: "world \<Rightarrow> string" where
  "srcDir w = path_join (packageDir w) ''src''"

definition serverPath :: "world \<Rightarrow> string" where
  "serverPath w = path_join (srcDir w) ''server.py''"

definition cli_args :: "world \<Rightarrow> string list" where
  "cli_args w = drop 2 (argv w)"

definition shouldInstall :: "world \<Rightarrow> bool" where
  "shouldInstall w = (''--install'' \<in> set (cli_args w) \<or> ''-i'' \<in> set (cli_args w))"

definition filteredArgs :: "world \<Rightarrow> string list" where
  "filteredArgs w = filter (\<lambda>arg. arg \<notin> set [''--install'', ''-i'']) (cli_args w)"

text \<open>
  The \<^verbatim>\<open>try\<close> block of \<^verbatim>\<open>main\<close>. The \<open>Part001\<close> script does not compute
  \<^verbatim>\<open>filteredArgs\<close> and calls \<^verbatim>\<open>runServer(pythonCmd, serverPath)\<close>.
\<close>

definition main_try :: "variant \<Rightarrow> world \<Rightarrow> unit run" where
  "main_try v w =
     await (tell (case v of
                    Bin \<Rightarrow> [log v w (emoji_wrench @ '' SiteWise MCP Server'') cyan,
                             log v w ''========================'' cyan]
                  | Part001 \<Rightarrow> [])) (\<lambda>_.
     await (if \<not> existsSync w (serverPath w) then
              throw (case v of
                       Bin \<Rightarrow> ''No se encontr'' @ o_acute @ '' server.py en '' @ serverPath w
                     | Part001 \<Rightarrow> ''server.py no encontrado en '' @ serverPath w)
            else tell []) (\<lambda>_.
     await (tell (case v of
                    Bin \<Rightarrow> [log v w (emoji_snake @ '' Verificando Python...'') blue]
                  | Part001 \<Rightarrow> [])) (\<lambda>_.
     await (checkPython v w) (\<lambda>pythonCmd.
     await (tell (case v of
                    Bin \<Rightarrow> [log v w (emoji_check @ '' Python encontrado: '' @ pythonCmd) green]
                  | Part001 \<Rightarrow> [])) (\<lambda>_.
     await (if shouldInstall w then installDependencies v w pythonCmd (srcDir w) else tell []) (\<lambda>_.
     runServer v w pythonCmd (serverPath w)
       (case v of Bin \<Rightarrow> filteredArgs w | Part001 \<Rightarrow> [])))))))"

text \<open>
  How the process ends: with an exit status (\<^verbatim>\<open>process.exit(n)\<close>, or status zero when
  \<^verbatim>\<open>main\<close> has returned and nothing is left to wait for), with an uncaught exception, or
  not at all (it waits for a child that never ends).
\<close>

datatype ending = Exit nat | UncaughtException string | Blocked

definition main :: "variant \<Rightarrow> world \<Rightarrow> ending \<times> action list" where
  "main v w =
     (case main_try v w of
        (Fulfilled _, tr) \<Rightarrow> (Exit 0, tr)
      | (Failed message, tr) \<Rightarrow>
          (Exit 1,
           tr @ [case v of
                   Bin \<Rightarrow> log v w (emoji_cross @ '' Error: '' @ message) red
                 | Part001 \<Rightarrow> log v w (''ERROR: '' @ message) reset])
      | (Crashed message, tr) \<Rightarrow> (UncaughtException message, tr)
      | (Waiting, tr) \<Rightarrow> (Blocked, tr))"

definition help_text :: "variant \<Rightarrow> world \<Rightarrow> action list" where
  "help_text v w =
     (case v of
        Bin \<Rightarrow>
          [log v w (emoji_wrench @ '' SiteWise MCP Server'') cyan,
           log v w ''========================'' cyan,
           log v w [] reset,
           log v w ''Uso:'' bright,
           log v w ''  npx sitewise-mcp-server [opciones]'' reset,
           log v w [] reset,
           log v w ''Opciones:'' bright,
           log v w ''  -h, --help     Mostrar esta ayuda'' reset,
           log v w ''  -i, --install  Instalar dependencias de Python antes de ejecutar'' reset,
           log v w [] reset,
           log v w ''Ejemplos:'' bright,
           log v w ''  npx sitewise-mcp-server --install'' reset,
           log v w ''  npx sitewise-mcp-server'' reset,
           log v w [] reset,
           log v w (''Configuraci'' @ o_acute @ ''n:'') bright,
           log v w ''  Crea un archivo .env en el directorio actual con:'' reset,
           log v w ''    AWS_PROFILE=default'' reset,
           log v w ''    AWS_REGION=us-east-1'' reset,
           log v w ''    LOG_LEVEL=DEBUG'' reset]
      | Part001 \<Rightarrow>
          [Stderr ''SiteWise MCP Server'',
           Stderr ''Uso: npx sitewise-mcp-server [--install]'',
           Stderr ''  --install: Instalar dependencias Python''])"

text \<open>The script from top to bottom: the help block, then \<^verbatim>\<open>main()\<close>.\<close>

definition helpRequested :: "world \<Rightarrow> bool" where
  "helpRequested w = (''--help'' \<in> set (argv w) \<or> ''-h'' \<in> set (argv w))"

definition launcher :: "variant \<Rightarrow> world \<Rightarrow> ending \<times> action list" where
  "launcher v w = (if helpRequested w then (Exit 0, help_text v w) else main v w)"

section \<open>Reading a run\<close>

text \<open>What a run wrote to each stream, the child processes it started, the signals it sent.\<close>

definition stdout_of :: "action list \<Rightarrow> string list" where
  "stdout_of tr = concat (map (\<lambda>a. case a of Stdout s \<Rightarrow> [s] | _ \<Rightarrow> []) tr)"

definition stderr_of :: "action list \<Rightarrow> string list" where
  "stderr_of tr = concat (map (\<lambda>a. case a of Stderr s \<Rightarrow> [s] | _ \<Rightarrow> []) tr)"

definition spawned :: "action list \<Rightarrow> (string \<times> string list) list" where
  "spawned tr = concat (map (\<lambda>a. case a of Spawn cmd args _ _ \<Rightarrow> [(cmd, args)] | _ \<Rightarrow> []) tr)"

definition kills :: "action list \<Rightarrow> signal list" where
  "kills tr = concat (map (\<lambda>a. case a of KillServer sig \<Rightarrow> [sig] | _ \<Rightarrow> []) tr)"

text \<open>The three kinds of child process, told apart by their arguments.\<close>

definition version_checks :: "(string \<times> string list) set" where
  "version_checks = {(''python3'', [''--version'']), (''python'', [''--version''])}"

definition requirementsPath :: "world \<Rightarrow> string" where
  "requirementsPath w = path_join (srcDir w) ''requirements.txt''"

definition pipArgs :: "world \<Rightarrow> string list" where
  "pipArgs w = [''-m'', ''pip'', ''install'', ''-r'', requirementsPath w]"

definition is_server :: "world \<Rightarrow> string \<times> string list \<Rightarrow> bool" where
  "is_server w c = (case snd c of [] \<Rightarrow> False | a # _ \<Rightarrow> a = serverPath w)"







text \<open>An awaited step that has settled: it was fulfilled or rejected.\<close>

fun settled :: "'a awaited \<Rightarrow> bool" where
  "settled (Fulfilled _) = True"
| "settled (Failed _) = True"
| "settled (Crashed _) = False"
| "settled Waiting = False"

subsection \<open>Example runs\<close>

text \<open>
  A run on Windows without colours: \<^verbatim>\<open>server.py\<close> is there, no manifest, no \<^verbatim>\<open>.env\<close>, and
  every child exits with status zero.
\<close>

definition example_world :: world where
  "example_world =
     \<lparr>argv = [''node'', ''sitewise-mcp-server''],
      penv = [(''PATH'', ''/usr/bin'')],
      platform = ''win32'',
      packageDir = ''/pkg'',
      cwd = ''/work'',
      files = (\<lambda>p. if p = ''/pkg/src/server.py'' then Some (Content ''import sys'') else None),
      spawn_result = (\<lambda>cmd args. [Close (Some 0)]),
      signals = []\<rparr>"


text \<open>
  \<^verbatim>\<open>python3 --version\<close> exits with status 9009 and \<^verbatim>\<open>python\<close> is not installed: its spawn
  fails.
\<close>

definition unhandled_world :: world where
  "unhandled_world =
     example_world
       \<lparr>spawn_result := (\<lambda>cmd args.
          if cmd = ''python3'' then [Close (Some 9009)]
          else [Error ''spawn python ENOENT'', Close (Some (- 2))])\<rparr>"

text \<open>Runs with other arguments, files and children.\<close>

definition help_world :: world where
  "help_world = example_world\<lparr>argv := [''node'', ''sitewise-mcp-server'', ''--install'', ''--help'']\<rparr>"

definition install_world :: world where
  "install_world =
     example_world
       \<lparr>argv := [''node'', ''sitewise-mcp-server'', ''--install'', ''--port'', ''8080'', ''-i''],
        files := (\<lambda>p. if p = ''/pkg/src/requirements.txt'' then Some (Content ''boto3'')
                       else files example_world p),
        signals := [SIGINT, SIGTERM, SIGINT]\<rparr>"

definition no_manifest_world :: world where
  "no_manifest_world = example_world\<lparr>argv := [''node'', ''sitewise-mcp-server'', ''-i'']\<rparr>"



section \<open>Properties\<close>

subsection \<open>The environment file\<close>


lemma split_on_no_sep: "c \<notin> set s \<Longrightarrow> split_on c s = [s]"
  by (induction s) auto

lemma split_on_sep: "c \<notin> set k \<Longrightarrow> split_on c (k @ c # r) = k # split_on c r"
  by (induction k) auto


lemma env_line_fields:
  assumes "CHR ''='' \<notin> set key" "CHR ''='' \<notin> set val"
  shows "env_line v e (key @ CHR ''='' # val @ CHR ''='' # rest) =
           (if key \<noteq> [] \<and> val \<noteq> [] then AList.update (trim key) (env_value v val) e else e)"
proof -
  have "split_on CHR ''='' (key @ CHR ''='' # val @ CHR ''='' # rest) = key # val # split_on CHR ''='' rest"
    using assms by (simp add: split_on_sep)
  then show ?thesis by (simp add: env_line_def)
qed

lemma env_line_two_fields:
  assumes "CHR ''='' \<notin> set key" "CHR ''='' \<notin> set val"
  shows "env_line v e (key @ CHR ''='' # val) =
           (if key \<noteq> [] \<and> val \<noteq> [] then AList.update (trim key) (env_value v val) e else e)"
proof -
  have "split_on CHR ''='' (key @ CHR ''='' # val) = [key, val]"
    using assms by (simp add: split_on_sep split_on_no_sep)
  then show ?thesis by (simp add: env_line_def)
qed











text \<open>
  C10. A line with more than one \<^verbatim>\<open>=\<close> is \<open>key = val = rest\<close> with no \<^verbatim>\<open>=\<close> in \<open>key\<close> and
  \<open>val\<close>. Both scripts treat it as the line \<open>key = val\<close>: what follows the second \<^verbatim>\<open>=\<close> is
  dropped, and the value recorded (when key and value are not empty) is the text between
  the first and the second \<^verbatim>\<open>=\<close>, trimmed, and in the \<open>Part001\<close> script without its
  outer quotes.
\<close>

theorem env_line_second_equals:
  assumes "CHR ''='' \<notin> set key" and "CHR ''='' \<notin> set val"
  shows "env_line v e (key @ ''='' @ val @ ''='' @ rest) = env_line v e (key @ ''='' @ val)
       \<and> env_line v e (key @ ''='' @ val @ ''='' @ rest) =
           (if key \<noteq> [] \<and> val \<noteq> []
            then AList.update (trim key)
                   (case v of Bin \<Rightarrow> trim val | Part001 \<Rightarrow> strip_quotes (trim val)) e
            else e)"
  using env_line_fields [OF assms, of v e rest] env_line_two_fields [OF assms, of v e]
  by (simp add: env_value_def)


theorem env_line_second_equals_witness:
  "env_line Bin [] ''KEY=a=b'' = [(''KEY'', ''a'')]
   \<and> env_line Part001 [] ''KEY=a=b'' = [(''KEY'', ''a'')]"
  using env_line_second_equals [of "''KEY''" "''a''" Bin "[]" "''b''", THEN conjunct2]
    env_line_second_equals [of "''KEY''" "''a''" Part001 "[]" "''b''", THEN conjunct2]
  by (simp add: trim_def is_space_def strip_quotes_def is_quote_def)

subsection \<open>Reading the actions of each function\<close>

lemma fst_await:
  "fst (await m f) =
     (case fst m of Fulfilled x \<Rightarrow> fst (f x) | Failed e \<Rightarrow> Failed e
      | Crashed e \<Rightarrow> Crashed e | Waiting \<Rightarrow> Waiting)"
  by (cases m; cases "fst m") (auto simp: await_def split: prod.splits)

lemma snd_await:
  "snd (await m f) =
     snd m @ (case fst m of Fulfilled x \<Rightarrow> snd (f x) | Failed e \<Rightarrow> []
              | Crashed e \<Rightarrow> [] | Waiting \<Rightarrow> [])"
  by (cases m; cases "fst m") (auto simp: await_def split: prod.splits)

lemma stdout_of_simps [simp]:
  "stdout_of [] = []"
  "stdout_of (tr @ tr') = stdout_of tr @ stdout_of tr'"
  "stdout_of (Stdout s # tr) = s # stdout_of tr"
  "stdout_of (Stderr s # tr) = stdout_of tr"
  "stdout_of (Spawn c a io e # tr) = stdout_of tr"
  "stdout_of (KillServer sig # tr) = stdout_of tr"
  by (simp_all add: stdout_of_def)

lemma stderr_of_simps [simp]:
  "stderr_of [] = []"
  "stderr_of (tr @ tr') = stderr_of tr @ stderr_of tr'"
  "stderr_of (Stdout s # tr) = stderr_of tr"
  "stderr_of (Stderr s # tr) = s # stderr_of tr"
  "stderr_of (Spawn c a io e # tr) = stderr_of tr"
  "stderr_of (KillServer sig # tr) = stderr_of tr"
  by (simp_all add: stderr_of_def)

lemma spawned_simps [simp]:
  "spawned [] = []"
  "spawned (tr @ tr') = spawned tr @ spawned tr'"
  "spawned (Stdout s # tr) = spawned tr"
  "spawned (Stderr s # tr) = spawned tr"
  "spawned (Spawn c a io e # tr) = (c, a) # spawned tr"
  "spawned (KillServer sig # tr) = spawned tr"
  by (simp_all add: spawned_def)

lemma kills_simps [simp]:
  "kills [] = []"
  "kills (tr @ tr') = kills tr @ kills tr'"
  "kills (Stdout s # tr) = kills tr"
  "kills (Stderr s # tr) = kills tr"
  "kills (Spawn c a io e # tr) = kills tr"
  "kills (KillServer sig # tr) = sig # kills tr"
  by (simp_all add: kills_def)

lemma log_streams [simp]:
  "stdout_of [log Part001 w m c] = []"
  "stderr_of [log Bin w m c] = []"
  "spawned [log v w m c] = []"
  "kills [log v w m c] = []"
  "stdout_of (log Part001 w m c # tr) = stdout_of tr"
  "stderr_of (log Bin w m c # tr) = stderr_of tr"
  "spawned (log v w m c # tr) = spawned tr"
  "kills (log v w m c # tr) = kills tr"
  by (simp_all add: log_def split: variant.splits)

lemma python_event_trace:
  "set (trace (foldl (python_event v) s es)) \<subseteq> set (trace s) \<union> {spawn_version v ''python''}"
proof (induction es arbitrary: s)
  case Nil
  then show ?case by auto
next
  case (Cons e es)
  show ?case
    using Cons.IH [of "python_event v s e"] by (cases e) (auto split: if_splits)
qed

lemma checkPython_trace:
  "set (snd (checkPython v w)) \<subseteq> {spawn_version v ''python3'', spawn_version v ''python''}"
  using python_event_trace
    [of v "\<lparr>promise = Pending, alts = [], trace = [spawn_version v ''python3'']\<rparr>"
       "spawn_result w ''python3'' [''--version'']"]
  by (auto simp: checkPython_def Let_def)

lemma version_spawns_only:
  assumes "set tr \<subseteq> {spawn_version v ''python3'', spawn_version v ''python''}"
  shows "stdout_of tr = []" and "stderr_of tr = []" and "kills tr = []"
    and "set (spawned tr) \<subseteq> version_checks"
  using assms by (induction tr) (auto simp: spawn_version_def version_checks_def)

lemmas checkPython_reads =
  version_spawns_only [OF checkPython_trace]

subsection \<open>Interpreter resolution\<close>

text \<open>
  C1. When the \<^verbatim>\<open>python3 --version\<close> child closes with exit code 0, \<^verbatim>\<open>checkPython\<close>
  resolves to \<^verbatim>\<open>python3\<close>, and the only child it spawns is that one: \<^verbatim>\<open>python\<close> is never
  spawned. Both scripts.
\<close>

theorem checkPython_primary:
  assumes "spawn_result w ''python3'' [''--version''] = [Close (Some 0)]"
  shows "fst (checkPython v w) = Fulfilled ''python3''
       \<and> spawned (snd (checkPython v w)) = [(''python3'', [''--version''])]"
  using assms by (simp add: checkPython_def settle_def spawn_version_def)

theorem checkPython_primary_witness:
  "fst (checkPython Bin example_world) = Fulfilled ''python3''
   \<and> spawned (snd (checkPython Bin example_world)) = [(''python3'', [''--version''])]
   \<and> fst (checkPython Part001 example_world) = Fulfilled ''python3''
   \<and> spawned (snd (checkPython Part001 example_world)) = [(''python3'', [''--version''])]"
  using checkPython_primary [of example_world Bin] checkPython_primary [of example_world Part001]
  by (simp add: example_world_def)

text \<open>
  When both candidates fail, three of the four combinations reject with the "not found"
  error: both exit with a non-zero status, or \<^verbatim>\<open>python3\<close> cannot be spawned and \<^verbatim>\<open>python\<close>
  exits with a non-zero status or cannot be spawned either.
\<close>

lemma checkPython_both_fail_handled:
  assumes "(\<exists>c. spawn_result w ''python3'' [''--version''] = [Close c] \<and> c \<noteq> Some 0
              \<and> (\<exists>d. spawn_result w ''python'' [''--version''] = [Close d] \<and> d \<noteq> Some 0))
         \<or> (\<exists>m. spawn_result w ''python3'' [''--version''] = [Error m]
              \<and> ((\<exists>d. spawn_result w ''python'' [''--version''] = [Close d] \<and> d \<noteq> Some 0)
                  \<or> (\<exists>m'. spawn_result w ''python'' [''--version''] = [Error m'])))"
  shows "fst (checkPython v w) = Failed (notFound v)"
  using assms by (auto simp: checkPython_def settle_def)

text \<open>
  C2. The fourth combination: \<^verbatim>\<open>python3 --version\<close> exits with a non-zero status and
  \<^verbatim>\<open>python\<close> cannot be spawned. The \<^verbatim>\<open>pythonAlt\<close> child of the \<^verbatim>\<open>'close'\<close> handler has no
  \<^verbatim>\<open>'error'\<close> listener (the one of the \<^verbatim>\<open>'error'\<close> handler has), so the spawn error is
  thrown as an uncaught exception: \<^verbatim>\<open>checkPython\<close> does not reject with the "not found"
  error, and the launcher ends without its own report. Both scripts.
\<close>

theorem checkPython_unhandled_error:
  "checkPython Bin unhandled_world =
     (Crashed ''spawn python ENOENT'',
      [Spawn ''python3'' [''--version''] None None, Spawn ''python'' [''--version''] None None])
   \<and> checkPython Part001 unhandled_world =
     (Crashed ''spawn python ENOENT'',
      [Spawn ''python3'' [''--version''] (Some [Pipe, Pipe, Pipe]) None,
       Spawn ''python'' [''--version''] (Some [Pipe, Pipe, Pipe]) None])
   \<and> fst (launcher Bin unhandled_world) = UncaughtException ''spawn python ENOENT''
   \<and> fst (launcher Part001 unhandled_world) = UncaughtException ''spawn python ENOENT''"
  by (simp add: checkPython_def unhandled_world_def example_world_def settle_def spawn_version_def
      launcher_def helpRequested_def main_def main_try_def await_def tell_def throw_def
      existsSync_def serverPath_def srcDir_def path_join_def log_def supportsColor_def truthy_def)

text \<open>
  When Node.js follows the \<^verbatim>\<open>'error'\<close> event of a failed spawn by a \<^verbatim>\<open>'close'\<close> event with a
  non-zero code, both handlers of the \<^verbatim>\<open>python3\<close> child run and each spawns a
  \<^verbatim>\<open>pythonAlt\<close> child. If \<^verbatim>\<open>python\<close> cannot be spawned either, the second of them, which has
  no \<^verbatim>\<open>'error'\<close> listener, ends the process in the same way.
\<close>

lemma checkPython_spawn_errors_followed_by_close:
  assumes "spawn_result w ''python3'' [''--version''] = [Error m, Close c]" and "c \<noteq> Some 0"
    and "spawn_result w ''python'' [''--version''] = [Error m', Close c']"
  shows "fst (checkPython v w) = Crashed m'"
    and "spawned (snd (checkPython v w)) =
           [(''python3'', [''--version'']), (''python'', [''--version'']),
            (''python'', [''--version''])]"
  using assms by (simp_all add: checkPython_def settle_def spawn_version_def)

subsection \<open>The steps of main\<close>

lemma fst_main_try:
  "fst (main_try v w) =
     (if \<not> existsSync w (serverPath w) then
        Failed (case v of
                  Bin \<Rightarrow> ''No se encontr'' @ o_acute @ '' server.py en '' @ serverPath w
                | Part001 \<Rightarrow> ''server.py no encontrado en '' @ serverPath w)
      else
        (case fst (checkPython v w) of
           Fulfilled cmd \<Rightarrow>
             (case (if shouldInstall w then fst (installDependencies v w cmd (srcDir w))
                    else Fulfilled ()) of
                Fulfilled _ \<Rightarrow>
                  fst (runServer v w cmd (serverPath w)
                         (case v of Bin \<Rightarrow> filteredArgs w | Part001 \<Rightarrow> []))
              | Failed e \<Rightarrow> Failed e | Crashed e \<Rightarrow> Crashed e | Waiting \<Rightarrow> Waiting)
         | Failed e \<Rightarrow> Failed e | Crashed e \<Rightarrow> Crashed e | Waiting \<Rightarrow> Waiting))"
  by (simp add: main_try_def fst_await tell_def throw_def split: awaited.splits)

lemma snd_main_try:
  "snd (main_try v w) =
     (case v of
        Bin \<Rightarrow> [log v w (emoji_wrench @ '' SiteWise MCP Server'') cyan,
                 log v w ''========================'' cyan]
      | Part001 \<Rightarrow> [])
     @ (if \<not> existsSync w (serverPath w) then []
        else
          (case v of
             Bin \<Rightarrow> [log v w (emoji_snake @ '' Verificando Python...'') blue]
           | Part001 \<Rightarrow> [])
          @ snd (checkPython v w)
          @ (case fst (checkPython v w) of
               Fulfilled cmd \<Rightarrow>
                 (case v of
                    Bin \<Rightarrow> [log v w (emoji_check @ '' Python encontrado: '' @ cmd) green]
                  | Part001 \<Rightarrow> [])
                 @ (if shouldInstall w then snd (installDependencies v w cmd (srcDir w)) else [])
                 @ (case (if shouldInstall w then fst (installDependencies v w cmd (srcDir w))
                          else Fulfilled ()) of
                      Fulfilled _ \<Rightarrow>
                        snd (runServer v w cmd (serverPath w)
                               (case v of Bin \<Rightarrow> filteredArgs w | Part001 \<Rightarrow> []))
                    | Failed e \<Rightarrow> [] | Crashed e \<Rightarrow> [] | Waiting \<Rightarrow> [])
             | Failed e \<Rightarrow> [] | Crashed e \<Rightarrow> [] | Waiting \<Rightarrow> []))"
  by (simp add: main_try_def fst_await snd_await tell_def throw_def split: awaited.splits)

lemma fst_main:
  "fst (main v w) =
     (case fst (main_try v w) of Fulfilled _ \<Rightarrow> Exit 0 | Failed e \<Rightarrow> Exit 1
      | Crashed e \<Rightarrow> UncaughtException e | Waiting \<Rightarrow> Blocked)"
  by (simp add: main_def split: prod.splits awaited.splits)

lemma snd_main:
  "snd (main v w) =
     snd (main_try v w)
     @ (case fst (main_try v w) of
          Failed e \<Rightarrow> [case v of
                         Bin \<Rightarrow> log v w (emoji_cross @ '' Error: '' @ e) red
                       | Part001 \<Rightarrow> log v w (''ERROR: '' @ e) reset]
        | Fulfilled _ \<Rightarrow> [] | Crashed e \<Rightarrow> [] | Waiting \<Rightarrow> [])"
  by (simp add: main_def split: prod.splits awaited.splits)

lemma requirementsPath_eq: "path_join (srcDir w) ''requirements.txt'' = requirementsPath w"
  by (simp add: requirementsPath_def)

lemma fst_installDependencies:
  "fst (installDependencies v w cmd (srcDir w)) =
     (if \<not> existsSync w (requirementsPath w) then
        Failed (case v of
                  Bin \<Rightarrow> ''No se encontr'' @ o_acute @ '' requirements.txt en '' @ requirementsPath w
                | Part001 \<Rightarrow> ''requirements.txt no encontrado en '' @ requirementsPath w)
      else
        (case spawn_result w cmd (pipArgs w) of
           [] \<Rightarrow> Waiting
         | Close code # _ \<Rightarrow>
             if code = Some 0 then Fulfilled ()
             else Failed (case v of
                            Bin \<Rightarrow> ''Error instalando dependencias (c'' @ o_acute @ ''digo: ''
                                    @ show_code code @ '')''
                          | Part001 \<Rightarrow> ''Error instalando dependencias: '' @ show_code code)
         | Error msg # _ \<Rightarrow>
             Failed (case v of Bin \<Rightarrow> ''Error ejecutando pip: '' @ msg
                             | Part001 \<Rightarrow> ''Error pip: '' @ msg)))"
  by (simp add: installDependencies_def requirementsPath_eq pipArgs_def Let_def
      split: list.splits child_event.splits)

lemma installDependencies_reads:
  "spawned (snd (installDependencies v w cmd (srcDir w))) =
     (if existsSync w (requirementsPath w) then [(cmd, pipArgs w)] else [])"
  "kills (snd (installDependencies v w cmd (srcDir w))) = []"
  "stdout_of (snd (installDependencies Part001 w cmd (srcDir w))) = []"
  "stderr_of (snd (installDependencies Bin w cmd (srcDir w))) = []"
  by (simp_all add: installDependencies_def requirementsPath_eq pipArgs_def Let_def
      split: list.splits child_event.splits variant.splits)

lemma on_signal_reads:
  "kills (concat (map (on_signal v w) sigs)) = sigs"
  "spawned (concat (map (on_signal v w) sigs)) = []"
  "stdout_of (concat (map (on_signal Part001 w) sigs)) = []"
  "stderr_of (concat (map (on_signal Bin w) sigs)) = []"
proof -
  have one: "kills (on_signal v w s) = [s] \<and> spawned (on_signal v w s) = []
      \<and> stdout_of (on_signal Part001 w s) = [] \<and> stderr_of (on_signal Bin w s) = []" for s
    by (cases s) (simp_all split: variant.splits)
  show "kills (concat (map (on_signal v w) sigs)) = sigs"
    by (induction sigs) (simp_all add: one)
  show "spawned (concat (map (on_signal v w) sigs)) = []"
    by (induction sigs) (simp_all add: one)
  show "stdout_of (concat (map (on_signal Part001 w) sigs)) = []"
    by (induction sigs) (simp_all add: one)
  show "stderr_of (concat (map (on_signal Bin w) sigs)) = []"
    by (induction sigs) (simp_all add: one)
qed

lemma loadEnvFile_reads:
  "spawned (snd (loadEnvFile v w)) = []"
  "kills (snd (loadEnvFile v w)) = []"
  "stdout_of (snd (loadEnvFile Part001 w)) = []"
  "stderr_of (snd (loadEnvFile Bin w)) = []"
  by (simp_all add: loadEnvFile_def Let_def split: option.splits fs_entry.splits variant.splits)

lemma fst_loadEnvFile_Part001: "\<exists>overlay. fst (loadEnvFile Part001 w) = Inr overlay"
  by (simp add: loadEnvFile_def Let_def split: option.splits fs_entry.splits)

lemma runServer_spawned:
  "spawned (snd (runServer v w cmd sp args)) =
     (case fst (loadEnvFile v w) of
        Inl _ \<Rightarrow> []
      | Inr _ \<Rightarrow> [(cmd, case v of Bin \<Rightarrow> sp # args | Part001 \<Rightarrow> [sp])])"
proof -
  obtain r tr1 where l: "loadEnvFile v w = (r, tr1)" by (cases "loadEnvFile v w")
  have "spawned tr1 = []" using loadEnvFile_reads(1) [of v w] l by simp
  then show ?thesis using l
    by (cases v)
      (simp_all add: runServer_def Let_def on_signal_reads
        split: sum.splits list.splits child_event.splits)
qed

lemma runServer_kills:
  "kills (snd (runServer v w cmd sp args)) =
     (case fst (loadEnvFile v w) of Inl _ \<Rightarrow> [] | Inr _ \<Rightarrow> signals w)"
proof -
  obtain r tr1 where l: "loadEnvFile v w = (r, tr1)" by (cases "loadEnvFile v w")
  have "kills tr1 = []" using loadEnvFile_reads(2) [of v w] l by simp
  then show ?thesis using l
    by (cases v)
      (simp_all add: runServer_def Let_def on_signal_reads
        split: sum.splits list.splits child_event.splits)
qed



lemma fst_runServer:
  "fst (runServer v w cmd sp args) =
     (case fst (loadEnvFile v w) of
        Inl msg \<Rightarrow> Failed msg
      | Inr _ \<Rightarrow>
          (case spawn_result w cmd (case v of Bin \<Rightarrow> sp # args | Part001 \<Rightarrow> [sp]) of
             [] \<Rightarrow> Waiting
           | Close code # _ \<Rightarrow>
               if code = Some 0 then Fulfilled ()
               else Failed (case v of
                              Bin \<Rightarrow> ''Servidor cerrado con c'' @ o_acute @ ''digo: '' @ show_code code
                            | Part001 \<Rightarrow> ''Servidor terminado: '' @ show_code code)
           | Error msg # _ \<Rightarrow>
               Failed (case v of Bin \<Rightarrow> ''Error ejecutando servidor: '' @ msg
                               | Part001 \<Rightarrow> ''Error servidor: '' @ msg)))"
  by (simp add: runServer_def Let_def
      split: prod.splits sum.splits list.splits child_event.splits)

subsection \<open>The whole run\<close>

lemma serverPath_last: "last (serverPath w) = CHR ''y''"
  by (simp add: serverPath_def srcDir_def path_join_def)

lemma serverPath_distinct: "serverPath w \<noteq> ''--version''" "serverPath w \<noteq> ''-m''"
  using serverPath_last [of w] by auto

lemma is_server_simps:
  "is_server w (cmd, serverPath w # args)"
  "\<not> is_server w (cmd, pipArgs w)"
  "\<not> is_server w (cmd, [''--version''])"
  using serverPath_distinct [of w] by (auto simp: is_server_def pipArgs_def)

lemma not_server_version_checks:
  "set cs \<subseteq> version_checks \<Longrightarrow> filter (is_server w) cs = []"
  using is_server_simps(3) [of w] by (induction cs) (auto simp: version_checks_def)

lemma help_text_reads:
  "spawned (help_text v w) = []" "kills (help_text v w) = []"
  "stdout_of (help_text Part001 w) = []" "stderr_of (help_text Bin w) = []"
  by (simp_all add: help_text_def split: variant.splits)

lemma spawned_launcher:
  "spawned (snd (launcher v w)) =
     (if helpRequested w \<or> \<not> existsSync w (serverPath w) then []
      else spawned (snd (checkPython v w))
        @ (case fst (checkPython v w) of
             Fulfilled cmd \<Rightarrow>
               (if shouldInstall w \<and> existsSync w (requirementsPath w) then [(cmd, pipArgs w)]
                else [])
               @ (case (if shouldInstall w then fst (installDependencies v w cmd (srcDir w))
                        else Fulfilled ()) of
                    Fulfilled _ \<Rightarrow>
                      (case fst (loadEnvFile v w) of
                         Inl _ \<Rightarrow> []
                       | Inr _ \<Rightarrow>
                           [(cmd, serverPath w
                                  # (case v of Bin \<Rightarrow> filteredArgs w | Part001 \<Rightarrow> []))])
                  | Failed _ \<Rightarrow> [] | Crashed _ \<Rightarrow> [] | Waiting \<Rightarrow> [])
           | Failed _ \<Rightarrow> [] | Crashed _ \<Rightarrow> [] | Waiting \<Rightarrow> []))"
  by (cases v)
    (simp_all add: launcher_def help_text_reads snd_main snd_main_try installDependencies_reads
      runServer_spawned split: awaited.splits sum.splits)

lemma kills_launcher:
  "kills (snd (launcher v w)) =
     (if helpRequested w \<or> \<not> existsSync w (serverPath w) then []
      else (case fst (checkPython v w) of
             Fulfilled cmd \<Rightarrow>
               (case (if shouldInstall w then fst (installDependencies v w cmd (srcDir w))
                      else Fulfilled ()) of
                  Fulfilled _ \<Rightarrow>
                    (case fst (loadEnvFile v w) of Inl _ \<Rightarrow> [] | Inr _ \<Rightarrow> signals w)
                | Failed _ \<Rightarrow> [] | Crashed _ \<Rightarrow> [] | Waiting \<Rightarrow> [])
           | Failed _ \<Rightarrow> [] | Crashed _ \<Rightarrow> [] | Waiting \<Rightarrow> []))"
  by (cases v)
    (simp_all add: launcher_def help_text_reads snd_main snd_main_try installDependencies_reads
      runServer_kills checkPython_reads split: awaited.splits sum.splits)

lemma fst_launcher:
  "fst (launcher v w) =
     (if helpRequested w then Exit 0
      else (case fst (main_try v w) of Fulfilled _ \<Rightarrow> Exit 0 | Failed e \<Rightarrow> Exit 1
            | Crashed e \<Rightarrow> UncaughtException e | Waiting \<Rightarrow> Blocked))"
  by (simp add: launcher_def fst_main)



subsection \<open>Failures and their report\<close>

lemmas run_defs =
  launcher_def helpRequested_def main_def main_try_def await_def tell_def throw_def
  checkPython_def settle_def spawn_version_def notFound_def installDependencies_def
  runServer_def loadEnvFile_def parse_env_def env_line_def env_value_def spread_def
  existsSync_def serverPath_def srcDir_def requirementsPath_def pipArgs_def cli_args_def
  shouldInstall_def filteredArgs_def path_join_def log_def supportsColor_def truthy_def
  help_text_def


lemma not_server_checkPython: "c \<in> set (spawned (snd (checkPython v w))) \<Longrightarrow> \<not> is_server w c"
proof -
  have "filter (is_server w) (spawned (snd (checkPython v w))) = []"
    by (rule not_server_version_checks) (rule checkPython_reads)
  then show "c \<in> set (spawned (snd (checkPython v w))) \<Longrightarrow> \<not> is_server w c"
    by (auto simp: filter_empty_conv)
qed

lemma server_in_run:
  assumes "(cmd, args) \<in> set (spawned (snd (launcher v w)))" and "is_server w (cmd, args)"
  shows "\<not> helpRequested w \<and> existsSync w (serverPath w)
       \<and> fst (checkPython v w) = Fulfilled cmd
       \<and> (if shouldInstall w then fst (installDependencies v w cmd (srcDir w)) else Fulfilled ())
           = Fulfilled ()
       \<and> (case fst (loadEnvFile v w) of Inl _ \<Rightarrow> False | Inr _ \<Rightarrow> True)
       \<and> args = serverPath w # (case v of Bin \<Rightarrow> filteredArgs w | Part001 \<Rightarrow> [])"
proof -
  from assms(1) have h: "\<not> helpRequested w" "existsSync w (serverPath w)"
    by (auto simp: spawned_launcher split: if_splits)
  from assms(2) have n: "(cmd, args) \<notin> set (spawned (snd (checkPython v w)))"
    using not_server_checkPython by blast
  show ?thesis
  proof (cases "fst (checkPython v w)")
    case (Fulfilled c)
    let ?i = "if shouldInstall w then fst (installDependencies v w c (srcDir w)) else Fulfilled ()"
    from assms(2) have p: "(cmd, args) \<noteq> (c, pipArgs w)"
      using is_server_simps(2) by auto
    show ?thesis
    proof (cases ?i)
      case (Fulfilled u)
      with \<open>fst (checkPython v w) = Fulfilled c\<close> assms(1) h n p show ?thesis
        by (auto simp: spawned_launcher split: if_splits sum.splits)
    qed (use \<open>fst (checkPython v w) = Fulfilled c\<close> assms(1) h n p in
          \<open>auto simp: spawned_launcher split: if_splits\<close>)
  qed (use assms(1) h n in \<open>auto simp: spawned_launcher\<close>)
qed





subsection \<open>Installation\<close>




text \<open>
  C5, amended. In a run with \<^verbatim>\<open>--install\<close> or \<^verbatim>\<open>-i\<close> whose manifest does not exist, the only
  children ever spawned are the version checks of \<^verbatim>\<open>checkPython\<close>: neither an installer nor
  a server; and when the run passes the help block and \<^verbatim>\<open>checkPython\<close> settles, the
  launcher exits with status one. Both scripts.
\<close>

theorem missing_manifest:
  assumes "shouldInstall w" and "\<not> existsSync w (requirementsPath w)"
  shows "set (spawned (snd (launcher v w))) \<subseteq> version_checks
       \<and> (\<not> helpRequested w \<and> settled (fst (checkPython v w)) \<longrightarrow> fst (launcher v w) = Exit 1)"
proof -
  have vc: "set (spawned (snd (checkPython v w))) \<subseteq> version_checks" by (rule checkPython_reads)
  show ?thesis
    using assms vc
    by (auto simp: spawned_launcher fst_launcher fst_main_try fst_installDependencies
        split: awaited.splits)
qed

theorem missing_manifest_witness:
  "spawned (snd (launcher Bin no_manifest_world)) = [(''python3'', [''--version''])]
   \<and> fst (launcher Bin no_manifest_world) = Exit 1
   \<and> spawned (snd (launcher Part001 no_manifest_world)) = [(''python3'', [''--version''])]
   \<and> fst (launcher Part001 no_manifest_world) = Exit 1"
  using missing_manifest [of no_manifest_world Bin] missing_manifest [of no_manifest_world Part001]
  by (simp add: run_defs example_world_def no_manifest_world_def)

text \<open>
  Without the condition on the help block the claim fails: with \<^verbatim>\<open>--install --help\<close> and
  no manifest, the launcher exits with status zero.
\<close>

theorem missing_manifest_help_exit_zero:
  "shouldInstall help_world
   \<and> \<not> existsSync help_world (requirementsPath help_world)
   \<and> fst (launcher Bin help_world) = Exit 0
   \<and> fst (launcher Part001 help_world) = Exit 0"
  by (simp add: run_defs example_world_def help_world_def)

subsection \<open>The help block\<close>

text \<open>
  C7, amended. When \<^verbatim>\<open>process.argv\<close> contains \<^verbatim>\<open>--help\<close> or \<^verbatim>\<open>-h\<close>, the launcher exits with
  status zero and spawns no child (so it resolves no interpreter) and sends no signal. The
  \<open>Part001\<close> script writes its three lines of usage to the error stream and nothing to
  standard output; the \<open>Bin\<close> script writes its nineteen lines of usage with \<^verbatim>\<open>log\<close>, that
  is to standard output, and nothing to the error stream.
\<close>

theorem help_block:
  assumes "''--help'' \<in> set (argv w) \<or> ''-h'' \<in> set (argv w)"
  shows "fst (launcher v w) = Exit 0
       \<and> spawned (snd (launcher v w)) = []
       \<and> kills (snd (launcher v w)) = []
       \<and> stderr_of (snd (launcher Part001 w)) =
           [''SiteWise MCP Server'', ''Uso: npx sitewise-mcp-server [--install]'',
            ''  --install: Instalar dependencias Python'']
       \<and> stdout_of (snd (launcher Part001 w)) = []
       \<and> stderr_of (snd (launcher Bin w)) = []
       \<and> length (stdout_of (snd (launcher Bin w))) = 19"
  using assms
  by (simp add: launcher_def helpRequested_def help_text_reads)
    (simp add: help_text_def log_def)

theorem help_block_witness:
  "fst (launcher Part001 help_world) = Exit 0
   \<and> snd (launcher Part001 help_world) =
       [Stderr ''SiteWise MCP Server'', Stderr ''Uso: npx sitewise-mcp-server [--install]'',
        Stderr ''  --install: Instalar dependencias Python'']
   \<and> fst (launcher Bin help_world) = Exit 0
   \<and> spawned (snd (launcher Bin help_world)) = []"
  using help_block [of help_world Part001] help_block [of help_world Bin]
  by (simp add: run_defs example_world_def help_world_def)

text \<open>
  The claim as it is written fails for the \<open>Bin\<close> script: its usage text goes to standard
  output.
\<close>

theorem help_on_stdout:
  "stderr_of (snd (launcher Bin help_world)) = []
   \<and> length (stdout_of (snd (launcher Bin help_world))) = 19
   \<and> stdout_of (snd (launcher Bin help_world)) ! 3 = ''Uso:''"
  by (simp add: run_defs example_world_def help_world_def)

subsection \<open>Signals\<close>

lemma signals_irrelevant:
  "checkPython v (w\<lparr>signals := sigs\<rparr>) = checkPython v w"
  "fst (installDependencies v (w\<lparr>signals := sigs\<rparr>) c d) = fst (installDependencies v w c d)"
  "fst (loadEnvFile v (w\<lparr>signals := sigs\<rparr>)) = fst (loadEnvFile v w)"
  "existsSync (w\<lparr>signals := sigs\<rparr>) p = existsSync w p"
  "serverPath (w\<lparr>signals := sigs\<rparr>) = serverPath w"
  "srcDir (w\<lparr>signals := sigs\<rparr>) = srcDir w"
  "requirementsPath (w\<lparr>signals := sigs\<rparr>) = requirementsPath w"
  "pipArgs (w\<lparr>signals := sigs\<rparr>) = pipArgs w"
  "shouldInstall (w\<lparr>signals := sigs\<rparr>) = shouldInstall w"
  "filteredArgs (w\<lparr>signals := sigs\<rparr>) = filteredArgs w"
  "helpRequested (w\<lparr>signals := sigs\<rparr>) = helpRequested w"
  by (simp_all add: checkPython_def installDependencies_def loadEnvFile_def existsSync_def
      serverPath_def srcDir_def requirementsPath_def pipArgs_def shouldInstall_def
      filteredArgs_def cli_args_def helpRequested_def Let_def
      split: option.splits fs_entry.splits variant.splits list.splits child_event.splits)

lemma fst_runServer_signals:
  "fst (runServer v (w\<lparr>signals := sigs\<rparr>) c p a) = fst (runServer v w c p a)"
  by (simp add: fst_runServer signals_irrelevant
      split: sum.splits list.splits child_event.splits)

text \<open>
  C8. In a run that spawned the server child, the signals sent to it with
  \<^verbatim>\<open>server.kill\<close> are exactly the signals that the launcher received while it was active:
  each one once, the same signal, in the same order. How the launcher ends and which
  children it spawns do not depend on the signals received. Both scripts.
\<close>

theorem signals_forwarded:
  "(filter (is_server w) (spawned (snd (launcher v w))) \<noteq> []
      \<longrightarrow> kills (snd (launcher v w)) = signals w)
   \<and> fst (launcher v (w\<lparr>signals := sigs\<rparr>)) = fst (launcher v w)
   \<and> spawned (snd (launcher v (w\<lparr>signals := sigs\<rparr>))) = spawned (snd (launcher v w))"
proof (intro conjI impI)
  assume "filter (is_server w) (spawned (snd (launcher v w))) \<noteq> []"
  then obtain cmd args where c: "(cmd, args) \<in> set (spawned (snd (launcher v w)))"
    and s: "is_server w (cmd, args)"
    by (auto simp: filter_empty_conv)
  from server_in_run [OF c s] show "kills (snd (launcher v w)) = signals w"
    by (auto simp: kills_launcher split: sum.splits)
next
  show "fst (launcher v (w\<lparr>signals := sigs\<rparr>)) = fst (launcher v w)"
    by (simp add: fst_launcher fst_main_try signals_irrelevant fst_runServer_signals
        cong: awaited.case_cong variant.case_cong if_cong)
  show "spawned (snd (launcher v (w\<lparr>signals := sigs\<rparr>))) = spawned (snd (launcher v w))"
    by (simp add: spawned_launcher signals_irrelevant
        cong: awaited.case_cong variant.case_cong sum.case_cong if_cong)
qed

theorem signals_forwarded_witness:
  "kills (snd (launcher Bin install_world)) = [SIGINT, SIGTERM, SIGINT]
   \<and> kills (snd (launcher Part001 install_world)) = [SIGINT, SIGTERM, SIGINT]
   \<and> fst (launcher Bin (install_world\<lparr>signals := []\<rparr>)) = fst (launcher Bin install_world)"
  using signals_forwarded [of install_world Bin "[]"] signals_forwarded [of install_world Part001 "[]"]
  by (simp add: run_defs example_world_def install_world_def)

subsection \<open>The arguments of the server child\<close>

text \<open>
  C9. Every server child that the \<open>Bin\<close> script spawns gets, after the path of
  \<^verbatim>\<open>server.py\<close>, the command-line arguments other than \<^verbatim>\<open>--install\<close> and \<^verbatim>\<open>-i\<close>, unchanged
  and in their order; every server child that the \<open>Part001\<close> script spawns gets the path
  of \<^verbatim>\<open>server.py\<close> and no command-line argument.
\<close>

theorem server_arguments:
  "(\<forall>c \<in> set (spawned (snd (launcher Bin w))).
      is_server w c \<longrightarrow>
        snd c = serverPath w # filter (\<lambda>a. a \<noteq> ''--install'' \<and> a \<noteq> ''-i'') (drop 2 (argv w)))
   \<and> (\<forall>c \<in> set (spawned (snd (launcher Part001 w))).
        is_server w c \<longrightarrow> snd c = [serverPath w])"
proof -
  have f: "filteredArgs w = filter (\<lambda>a. a \<noteq> ''--install'' \<and> a \<noteq> ''-i'') (drop 2 (argv w))"
    by (simp add: filteredArgs_def cli_args_def)
  have "snd c = serverPath w # filter (\<lambda>a. a \<noteq> ''--install'' \<and> a \<noteq> ''-i'') (drop 2 (argv w))"
    if "c \<in> set (spawned (snd (launcher Bin w)))" and "is_server w c" for c
    using server_in_run [of "fst c" "snd c" Bin w] that f by simp
  moreover have "snd c = [serverPath w]"
    if "c \<in> set (spawned (snd (launcher Part001 w)))" and "is_server w c" for c
    using server_in_run [of "fst c" "snd c" Part001 w] that by simp
  ultimately show ?thesis by blast
qed

theorem server_arguments_witness:
  "filter (is_server install_world) (spawned (snd (launcher Bin install_world))) =
     [(''python3'', [''/pkg/src/server.py'', ''--port'', ''8080''])]
   \<and> filter (is_server install_world) (spawned (snd (launcher Part001 install_world))) =
     [(''python3'', [''/pkg/src/server.py''])]"
  using server_arguments [of install_world]
  by (simp add: run_defs is_server_def example_world_def install_world_def)

end
